theory Spec2Isabelle
  imports Main
begin

section \<open>Session context and call-graph validation (aimux.go)\<close>

text \<open>
  Go strings are byte sequences; they are modelled as \<^typ>\<open>string\<close> (a list of 8-bit
  characters).  \<open>ID\<close> is a named string type in the source.
\<close>

type_synonym ID = string

text \<open>
  The \<open>Context\<close> struct.  \<open>LVL\<close> is a Go \<open>int\<close>; validation only compares it with a
  constant, so it is an unbounded integer here.  \<open>ENV\<close> is a Go map, which may be \<open>nil\<close>:
  reading a nil map yields the zero value, writing to it panics.
\<close>

record Context =
  CID :: ID
  SID :: ID
  TOP :: string
  TAG :: string
  GEN :: string
  MOD :: string
  LVL :: int
  WTF :: bool
  DIR :: string
  ENV :: "(string \<rightharpoonup> string) option"

definition Tag2 :: "Context \<Rightarrow> string" where
  "Tag2 c = MOD c @ ''~'' @ GEN c"

definition Tag3 :: "Context \<Rightarrow> string" where
  "Tag3 c = (if MOD c \<noteq> [] then MOD c @ ''~'' @ GEN c else GEN c)"

text \<open>\<open>strings.Contains(s, "~")\<close> and \<open>strings.Split(s, "~")\<close> for the one-byte separator.\<close>

definition ContainsSep :: "string \<Rightarrow> bool" where
  "ContainsSep s = (CHR ''~'' \<in> set s)"

fun SplitSep :: "string \<Rightarrow> string list" where
  "SplitSep [] = [[]]"
| "SplitSep (x # xs) =
     (if x = CHR ''~'' then [] # SplitSep xs
      else (case SplitSep xs of p # ps \<Rightarrow> (x # p) # ps | [] \<Rightarrow> [[x]]))"

text \<open>
  \<open>BlockingError\<close>: the exit code and the message.  The message text is produced by
  \<open>fmt.Sprintf\<close> over \<open>SigTop\<close>/\<open>SigTag\<close> (capitalised signatures); the model keeps
  which of the four formats is used together with the raw arguments that are formatted.
\<close>

datatype BlockMessage =
    DepthExceededMsg int
  | CannotCallYourselfMsg string
  | CannotCallAnyoneMsg string
  | CannotCallMsg string string

record BlockingError =
  Code :: int
  Message :: BlockMessage

text \<open>\<open>ValidateCall\<close>: \<open>None\<close> is the \<open>nil\<close> error (the call is allowed).\<close>

definition ValidateCall :: "Context \<Rightarrow> BlockingError option" where
  "ValidateCall c =
    (if LVL c \<ge> 3 then
       Some \<lparr>Code = 3, Message = DepthExceededMsg (LVL c)\<rparr>
     else if TAG c \<noteq> [] \<and> TAG c = TOP c then
       Some \<lparr>Code = 1, Message = CannotCallYourselfMsg (Tag3 c)\<rparr>
     else if TOP c \<noteq> [] \<and> ContainsSep (TOP c) \<and>
             (case SplitSep (TOP c) of p # _ \<Rightarrow> p = ''engineer'' | [] \<Rightarrow> False) then
       Some \<lparr>Code = 4, Message = CannotCallAnyoneMsg (TOP c)\<rparr>
     else if TOP c \<noteq> [] \<and> \<not> ContainsSep (TOP c) \<and> MOD c = ''engineer'' then
       Some \<lparr>Code = 5, Message = CannotCallMsg (TOP c) (Tag3 c)\<rparr>
     else None)"

subsection \<open>The decision table in the specification's vocabulary\<close>

datatype DenyCode =
    SelfCall
  | DepthExceeded
  | TerminalRoleViolation
  | UndifferentiatedToTerminalViolation

datatype BlockingOutcome = Allowed | Denied DenyCode

fun exit_code :: "DenyCode \<Rightarrow> int" where
  "exit_code SelfCall = 1"
| "exit_code DepthExceeded = 3"
| "exit_code TerminalRoleViolation = 4"
| "exit_code UndifferentiatedToTerminalViolation = 5"

text \<open>
  The role component of a tag \<open>persona~genus\<close> is the text before the first separator;
  a tag without separator has no role component.
\<close>

definition role_component :: "string \<Rightarrow> string option" where
  "role_component tag =
     (if CHR ''~'' \<in> set tag then Some (takeWhile (\<lambda>x. x \<noteq> CHR ''~'') tag) else None)"

definition terminal_role :: string where
  "terminal_role = ''engineer''"

text \<open>The four rules as the specification words them (rule 4 for every caller tag without
  role component).\<close>

definition spec_Validate :: "Context \<Rightarrow> BlockingOutcome" where
  "spec_Validate c =
    (if LVL c \<ge> 3 then Denied DepthExceeded
     else if TAG c \<noteq> [] \<and> TAG c = TOP c then Denied SelfCall
     else if role_component (TOP c) = Some terminal_role then Denied TerminalRoleViolation
     else if role_component (TOP c) = None \<and> MOD c = terminal_role
       then Denied UndifferentiatedToTerminalViolation
     else Allowed)"

text \<open>The same table with rule 4 restricted to a non-empty caller tag.\<close>

definition spec_Validate_nonempty_caller :: "Context \<Rightarrow> BlockingOutcome" where
  "spec_Validate_nonempty_caller c =
    (if LVL c \<ge> 3 then Denied DepthExceeded
     else if TAG c \<noteq> [] \<and> TAG c = TOP c then Denied SelfCall
     else if role_component (TOP c) = Some terminal_role then Denied TerminalRoleViolation
     else if TOP c \<noteq> [] \<and> role_component (TOP c) = None \<and> MOD c = terminal_role
       then Denied UndifferentiatedToTerminalViolation
     else Allowed)"

text \<open>What a caller of \<open>ValidateCall\<close> observes: allowed, or the exit code of the denial.\<close>

definition observed_code :: "BlockingError option \<Rightarrow> int option" where
  "observed_code r = map_option Code r"

definition outcome_code :: "BlockingOutcome \<Rightarrow> int option" where
  "outcome_code r = (case r of Allowed \<Rightarrow> None | Denied d \<Rightarrow> Some (exit_code d))"

definition top_level_engineer_call :: Context where
  "top_level_engineer_call =
     \<lparr>CID = ''c'', SID = ''c'', TOP = [], TAG = ''engineer~claude'', GEN = ''claude'',
      MOD = ''engineer'', LVL = 0, WTF = False, DIR = [], ENV = Some Map.empty\<rparr>"

section \<open>Library interface and environment\<close>

text \<open>
  Values decoded by \<open>encoding/json\<close> into \<open>interface{}\<close>.  Numbers are never inspected
  by the code; their payload is a placeholder.  An object is kept as an association
  list and read with \<^const>\<open>map_of\<close>.
\<close>

datatype json =
    JNull
  | JBool bool
  | JNumber int
  | JString string
  | JArray "json list"
  | JObject "(string \<times> json) list"

type_synonym jobj = "(string \<times> json) list"

text \<open>Type assertions \<open>v.(string)\<close>, \<open>v.(bool)\<close>, \<open>v.(map[string]interface{})\<close> and
  \<open>v.([]interface{})\<close> on the result of a map lookup.\<close>

definition as_string :: "json option \<Rightarrow> string option" where
  "as_string v = (case v of Some (JString s) \<Rightarrow> Some s | _ \<Rightarrow> None)"

definition as_bool :: "json option \<Rightarrow> bool option" where
  "as_bool v = (case v of Some (JBool b) \<Rightarrow> Some b | _ \<Rightarrow> None)"

definition as_object :: "json option \<Rightarrow> jobj option" where
  "as_object v = (case v of Some (JObject m) \<Rightarrow> Some m | _ \<Rightarrow> None)"

definition as_array :: "json option \<Rightarrow> json list option" where
  "as_array v = (case v of Some (JArray xs) \<Rightarrow> Some xs | _ \<Rightarrow> None)"

text \<open>
  Functions of the Go standard library that the code calls are parameters of the model:
  \<^item> \<open>Unmarshal\<close>: \<open>json.Unmarshal\<close> of a line into \<open>map[string]interface{}\<close>
    (\<open>None\<close> is a decoding error);
  \<^item> \<open>UnmarshalContext\<close>: \<open>json.Unmarshal\<close> of a snapshot into a \<open>Context\<close>;
  \<^item> \<open>Join\<close>: \<open>filepath.Join\<close>;
  \<^item> \<open>ScanLines\<close>: a default \<open>bufio.Scanner\<close> run over the bytes of a file: the
    tokens it delivers and whether \<open>scanner.Err()\<close> is non-nil afterwards.
\<close>

record Lib =
  Unmarshal :: "string \<Rightarrow> jobj option"
  UnmarshalContext :: "string \<Rightarrow> Context option"
  Join :: "string list \<Rightarrow> string"
  ScanLines :: "string \<Rightarrow> string list \<times> bool"

datatype error =
    HomeDirError
  | CreateDirectoryError
  | OpenLogFileError
  | ReadStreamError
  | OpenFileError
  | ScanError
  | LogFileEmptyError
  | LogLineDecodeError
  | NoSessionIDError
  | InvalidSessionIDError string
  | GenerateIDError
  | Blocked BlockingError
  | LoadConfigError
  | UnknownGenusError
  | NoExeError
  | CommandNotAllowedError
  | NilMapPanic

text \<open>
  The environment of one run: the home directory (\<open>None\<close>: \<open>os.UserHomeDir\<close> fails),
  the readable regular files with their bytes, whether the one \<open>os.MkdirAll\<close> and the
  one \<open>os.OpenFile\<close> of the drain succeed, and the result of the one \<open>NewID()\<close> call
  of \<open>buildSessionFlags\<close> (\<open>None\<close>: the random source fails).
\<close>

record World =
  home :: "string option"
  files :: "string \<rightharpoonup> string"
  mkdir_ok :: bool
  open_ok :: bool
  new_id :: "ID option"

definition aimuxDir :: string where "aimuxDir = ''.aimux''"
definition conversationsDir :: string where "conversationsDir = ''conversations''"
definition logFileName :: string where "logFileName = ''log.jsonl''"
definition contextFileName :: string where "contextFileName = ''context.json''"
definition emptyModPlaceholder :: string where "emptyModPlaceholder = ''-''"

definition Dir1 :: "Lib \<Rightarrow> World \<Rightarrow> Context \<Rightarrow> error + string" where
  "Dir1 L W c =
     (case home W of
        None \<Rightarrow> Inl HomeDirError
      | Some h \<Rightarrow> Inr (Join L [h, aimuxDir, conversationsDir, CID c, GEN c]))"

definition Dir2 :: "Lib \<Rightarrow> World \<Rightarrow> Context \<Rightarrow> error + string" where
  "Dir2 L W c =
     (case Dir1 L W c of
        Inl e \<Rightarrow> Inl e
      | Inr dir1 \<Rightarrow> if MOD c \<noteq> [] then Inr (Join L [dir1, MOD c]) else Inr dir1)"

definition Log1 :: "Lib \<Rightarrow> World \<Rightarrow> Context \<Rightarrow> error + string" where
  "Log1 L W c =
     (case Dir1 L W c of
        Inl e \<Rightarrow> Inl e
      | Inr dir1 \<Rightarrow> Inr (Join L [dir1, logFileName]))"

definition Log2 :: "Lib \<Rightarrow> World \<Rightarrow> Context \<Rightarrow> error + string" where
  "Log2 L W c =
     (case Dir1 L W c of
        Inl e \<Rightarrow> Inl e
      | Inr dir1 \<Rightarrow>
          Inr (Join L [dir1, if MOD c = [] then emptyModPlaceholder else MOD c, logFileName]))"

definition Log3 :: "Lib \<Rightarrow> World \<Rightarrow> Context \<Rightarrow> error + string" where
  "Log3 L W c =
     (case Dir2 L W c of
        Inl e \<Rightarrow> Inl e
      | Inr dir2 \<Rightarrow> Inr (Join L [dir2, logFileName]))"

section \<open>The streaming response interpreter (flow.go, StreamAndLog)\<close>

definition MaxLineLength :: nat where
  "MaxLineLength = 1024 * 1024"

definition MaxOutputSize :: nat where
  "MaxOutputSize = 10 * 1024 * 1024"

definition nl :: string where
  "nl = [CHR 0x0A]"

definition truncation_notice :: string where
  "truncation_notice = nl @ ''[WARNING: Output truncated at 10MB limit]'' @ nl"

text \<open>
  Filesystem operations issued by the interpreter, in program order.  A log line is
  either a raw output line, or a \<open>Message\<close> record (session id, origin, body; its
  timestamp is not modelled).  \<open>SaveContext c\<close> is a call of \<open>saveContext\<close>, which writes the
  snapshot of \<open>c\<close> to \<open>DIR/context.json\<close>.
\<close>

datatype logline = RawLine string | MessageLine ID string string

datatype fsop =
    MkdirAll string
  | SaveContext Context
  | OpenLog string
  | LogWrite logline

text \<open>
  The local variables of \<open>StreamAndLog\<close>, the context it mutates (\<open>cx\<close>), the bytes
  written to the sink through the buffered writer (\<open>written\<close>; the sink is an in-memory
  buffer, its writes do not fail) and the filesystem operations issued (\<open>fsops\<close>).
  The counters \<open>totalOutput\<close> and \<open>lineNumber\<close> are Go \<open>int\<close>s that start at zero and
  only grow by the lengths of lines read, far below the range of 64 bits; they are
  natural numbers here.
\<close>

record DrainState =
  cx :: Context
  written :: string
  fsops :: "fsop list"
  format :: string
  totalOutput :: nat
  lineNumber :: nat
  streamHasError :: bool
  pendingSID :: ID
  sidSaved :: bool
  sidLogged :: bool
  logFile :: bool

definition initState :: "Context \<Rightarrow> DrainState" where
  "initState c =
     \<lparr>cx = c, written = [], fsops = [], format = [], totalOutput = 0, lineNumber = 0,
      streamHasError = False, pendingSID = [], sidSaved = False, sidLogged = False,
      logFile = False\<rparr>"

definition detectFormat :: "string \<Rightarrow> string" where
  "detectFormat firstLine =
     (case firstLine of
        [] \<Rightarrow> ''empty''
      | x # _ \<Rightarrow>
          if x = CHR ''{'' \<or> x = CHR ''['' then ''json''
          else if x = CHR ''<'' then ''xml''
          else ''text'')"

text \<open>Lines 647-663: directory, snapshot and log file, once the format is detected.\<close>

definition openOutputs :: "Lib \<Rightarrow> World \<Rightarrow> DrainState \<Rightarrow> (error \<times> DrainState) + DrainState" where
  "openOutputs L W s =
     (let s1 = s\<lparr>fsops := fsops s @ [MkdirAll (DIR (cx s))]\<rparr> in
      if \<not> mkdir_ok W then Inl (CreateDirectoryError, s1)
      else
        let s2 = s1\<lparr>fsops := fsops s1 @ [SaveContext (cx s1)]\<rparr> in
        (case Log3 L W (cx s2) of
           Inl e \<Rightarrow> Inl (e, s2)
         | Inr log3 \<Rightarrow>
             let s3 = s2\<lparr>fsops := fsops s2 @ [OpenLog log3]\<rparr> in
             if \<not> open_ok W then Inl (OpenLogFileError, s3)
             else Inr (s3\<lparr>logFile := True\<rparr>)))"

text \<open>Lines 707-733: the message of an error record.\<close>

definition errorMessage :: "jobj \<Rightarrow> string" where
  "errorMessage data =
     (let m1 = (case as_object (map_of data ''error'') of
                  Some e \<Rightarrow> (case as_string (map_of e ''message'') of Some m \<Rightarrow> m | None \<Rightarrow> [])
                | None \<Rightarrow> []);
          m2 = (if m1 = [] then
                  (case as_string (map_of data ''result'') of Some r \<Rightarrow> r | None \<Rightarrow> [])
                else m1);
          m3 = (if m2 = [] then
                  (case as_string (map_of data ''message'') of Some m \<Rightarrow> m | None \<Rightarrow> [])
                else m2)
      in if m3 = [] then ''Unknown API error'' else m3)"

text \<open>Lines 788-815: the text of a record.\<close>

fun contentText :: "json list \<Rightarrow> string" where
  "contentText [] = []"
| "contentText (item # items) =
     (case item of
        JObject itemMap \<Rightarrow>
          (case as_string (map_of itemMap ''text'') of Some t \<Rightarrow> t | None \<Rightarrow> [])
      | _ \<Rightarrow> []) @ contentText items"

definition messageContent :: "jobj \<Rightarrow> string" where
  "messageContent msg =
     (case as_array (map_of msg ''content'') of
        Some content \<Rightarrow> contentText content
      | None \<Rightarrow> [])"

definition extractText :: "jobj \<Rightarrow> string" where
  "extractText data =
     (if as_string (map_of data ''type'') = Some ''assistant'' then
        (case as_object (map_of data ''message'') of
           Some msg \<Rightarrow> messageContent msg
         | None \<Rightarrow> [])
      else
        (case as_object (map_of data ''message'') of
           Some msg \<Rightarrow> messageContent msg
         | None \<Rightarrow>
             (case as_object (map_of data ''msg'') of
                Some msg \<Rightarrow>
                  (case as_string (map_of msg ''message'') of Some m \<Rightarrow> m | None \<Rightarrow> [])
              | None \<Rightarrow> [])))"

text \<open>Lines 771-777: the session identifier an assistant record carries, under
  \<open>session_id\<close>, or under \<open>sessionId\<close> when the first key is absent.\<close>

definition recordSessionID :: "jobj \<Rightarrow> ID option" where
  "recordSessionID data =
     (case (case map_of data ''session_id'' of
              Some v \<Rightarrow> Some v
            | None \<Rightarrow> map_of data ''sessionId'') of
        Some (JString sessionIDStr) \<Rightarrow> if sessionIDStr \<noteq> [] then Some sessionIDStr else None
      | _ \<Rightarrow> None)"

text \<open>Lines 767-787: an assistant record proposes its identifier as pending.\<close>

definition collectSID :: "jobj \<Rightarrow> DrainState \<Rightarrow> DrainState" where
  "collectSID data s =
     (if as_string (map_of data ''type'') = Some ''assistant'' then
        (case recordSessionID data of
           Some newSID \<Rightarrow>
             if pendingSID s = [] \<and> \<not> sidLogged s then s\<lparr>pendingSID := newSID, sidLogged := True\<rparr>
             else if pendingSID s = [] then s\<lparr>pendingSID := newSID\<rparr>
             else s
         | None \<Rightarrow> s)
      else s)"

text \<open>Lines 820-827: a pending identifier is applied and the snapshot saved.\<close>

definition flushSID :: "DrainState \<Rightarrow> DrainState" where
  "flushSID s =
     (if pendingSID s \<noteq> [] \<and> \<not> streamHasError s \<and> pendingSID s \<noteq> SID (cx s) then
        (let c' = (cx s)\<lparr>SID := pendingSID s\<rparr> in
         s\<lparr>cx := c', sidSaved := True, fsops := fsops s @ [SaveContext c']\<rparr>)
      else s)"

text \<open>Lines 696-703: a record with \<open>is_error == true\<close>.\<close>

definition isErrorRecord :: "jobj \<Rightarrow> bool" where
  "isErrorRecord data = (as_bool (map_of data ''is_error'') = Some True)"

definition markError :: "jobj \<Rightarrow> DrainState \<Rightarrow> DrainState" where
  "markError data s =
     (if isErrorRecord data then s\<lparr>streamHasError := True, pendingSID := []\<rparr> else s)"

text \<open>Line 706: \<open>type == "error"\<close>, or \<open>type == "result"\<close> with \<open>is_error\<close>.\<close>

definition explicitErrorType :: "jobj \<Rightarrow> bool" where
  "explicitErrorType data =
     (case as_string (map_of data ''type'') of
        Some msgType \<Rightarrow> msgType = ''error'' \<or> (msgType = ''result'' \<and> isErrorRecord data)
      | None \<Rightarrow> False)"

text \<open>The \<open>"json"\<close> case of the switch (lines 677-840); every path continues the loop.\<close>

definition handleJSON :: "Lib \<Rightarrow> DrainState \<Rightarrow> string \<Rightarrow> DrainState" where
  "handleJSON L s line =
     (case Unmarshal L line of
        None \<Rightarrow> s
      | Some data \<Rightarrow>
          let s1 = markError data s in
          if explicitErrorType data then
            (if as_string (map_of data ''type'') = Some ''error''
             then s1\<lparr>written := written s1 @ errorMessage data @ nl\<rparr>
             else s1)
          else
            let s2 = (if map_of data ''session_id'' \<noteq> None \<or> map_of data ''sessionId'' \<noteq> None
                      then s1\<lparr>fsops := fsops s1 @ [LogWrite (RawLine line)]\<rparr>
                      else s1);
                s3 = collectSID data s2;
                extractedText = extractText data;
                s4 = flushSID s3
            in if extractedText \<noteq> []
               then s4\<lparr>totalOutput := totalOutput s4 + length extractedText,
                       written := written s4 @ extractedText\<rparr>
               else s4)"

text \<open>The \<open>"text", "empty"\<close> case (lines 842-865) and the default case (lines 867-875).\<close>

definition handleText :: "DrainState \<Rightarrow> string \<Rightarrow> DrainState" where
  "handleText s line =
     (let s1 = s\<lparr>totalOutput := totalOutput s + length line,
                 written := written s @ line @ nl\<rparr>
      in if line \<noteq> []
         then s1\<lparr>fsops := fsops s1 @ [LogWrite (MessageLine (SID (cx s1)) ''assistant'' line)]\<rparr>
         else s1)"

definition handleOther :: "DrainState \<Rightarrow> string \<Rightarrow> DrainState" where
  "handleOther s line =
     s\<lparr>totalOutput := totalOutput s + length line, written := written s @ line @ nl\<rparr>"

text \<open>One iteration of the scan loop: continue, \<open>break\<close>, or \<open>return err\<close>.\<close>

datatype flow = Next DrainState | Stop DrainState | Fail error DrainState

definition step :: "Lib \<Rightarrow> World \<Rightarrow> DrainState \<Rightarrow> string \<Rightarrow> flow" where
  "step L W s0 line =
     (let s = s0\<lparr>lineNumber := lineNumber s0 + 1\<rparr> in
      case (if format s = [] \<and> line \<noteq> []
            then openOutputs L W (s\<lparr>format := detectFormat line\<rparr>)
            else Inr s) of
        Inl (e, s') \<Rightarrow> Fail e s'
      | Inr s1 \<Rightarrow>
          if totalOutput s1 \<ge> MaxOutputSize
          then Stop (s1\<lparr>written := written s1 @ truncation_notice\<rparr>)
          else if format s1 = ''json'' then Next (handleJSON L s1 line)
          else if format s1 = ''text'' \<or> format s1 = ''empty'' then Next (handleText s1 line)
          else Next (handleOther s1 line))"

text \<open>The loop over the lines the scanner delivers.\<close>

fun drain :: "Lib \<Rightarrow> World \<Rightarrow> DrainState \<Rightarrow> string list \<Rightarrow> flow" where
  "drain L W s [] = Next s"
| "drain L W s (line # rest) =
     (case step L W s line of
        Next s' \<Rightarrow> drain L W s' rest
      | Stop s' \<Rightarrow> Stop s'
      | Fail e s' \<Rightarrow> Fail e s')"

text \<open>Lines 889-901: the end-of-stream save.\<close>

definition finalize :: "DrainState \<Rightarrow> DrainState" where
  "finalize s =
     (if \<not> streamHasError s \<and> \<not> sidSaved s then
        (let s1 = (if pendingSID s \<noteq> [] \<and> pendingSID s \<noteq> SID (cx s)
                   then s\<lparr>cx := (cx s)\<lparr>SID := pendingSID s\<rparr>\<rparr>
                   else s)
         in s1\<lparr>fsops := fsops s1 @ [SaveContext (cx s1)]\<rparr>)
      else s)"

text \<open>
  \<open>StreamAndLog\<close>.  The reader is given by what the scanner makes of it: the lines it
  delivers, and \<open>scanErr\<close>, whether \<open>scanner.Err()\<close> is non-nil when the code asks
  (line 884; a line over \<open>MaxLineLength\<close> and a failed read both end up there).
  The result is the returned error and the final state.
\<close>

definition afterLoop :: "bool \<Rightarrow> DrainState \<Rightarrow> error option \<times> DrainState" where
  "afterLoop scanErr s = (if scanErr then (Some ReadStreamError, s) else (None, finalize s))"

definition StreamAndLog ::
    "Lib \<Rightarrow> World \<Rightarrow> Context \<Rightarrow> string list \<Rightarrow> bool \<Rightarrow> error option \<times> DrainState" where
  "StreamAndLog L W c lines scanErr =
     (case drain L W (initState c) lines of
        Fail e s \<Rightarrow> (Some e, s)
      | Next s \<Rightarrow> afterLoop scanErr s
      | Stop s \<Rightarrow> afterLoop scanErr s)"

text \<open>The state a loop outcome carries.\<close>

definition flow_state :: "flow \<Rightarrow> DrainState" where
  "flow_state r = (case r of Next s \<Rightarrow> s | Stop s \<Rightarrow> s | Fail e s \<Rightarrow> s)"

subsection \<open>The output ceiling on a plain-text stream\<close>


fun truncated :: "nat \<Rightarrow> string list \<Rightarrow> bool" where
  "truncated t [] = False"
| "truncated t (l # ls) =
     (if t \<ge> MaxOutputSize then True else truncated (t + length l) ls)"



section \<open>Session identity resolution (flow.go, util.go)\<close>

definition hasContent :: "World \<Rightarrow> string \<Rightarrow> bool" where
  "hasContent W path = (case files W path of None \<Rightarrow> False | Some b \<Rightarrow> length b > 0)"

definition fileExists :: "World \<Rightarrow> string \<Rightarrow> bool" where
  "fileExists W path = (files W path \<noteq> None)"

text \<open>
  \<open>hasEstablishedSession\<close>: some line decodes to a record whose \<open>from\<close> is a string
  other than \<open>"user"\<close>, or whose \<open>type\<close> is \<open>"assistant"\<close>.  The scanner's error is
  not consulted.
\<close>

fun anyAssistantLine :: "Lib \<Rightarrow> string list \<Rightarrow> bool" where
  "anyAssistantLine L [] = False"
| "anyAssistantLine L (l # ls) =
     (case Unmarshal L l of
        None \<Rightarrow> anyAssistantLine L ls
      | Some msg \<Rightarrow>
          if (case as_string (map_of msg ''from'') of Some frm \<Rightarrow> frm \<noteq> ''user'' | None \<Rightarrow> False)
          then True
          else if as_string (map_of msg ''type'') = Some ''assistant'' then True
          else anyAssistantLine L ls)"

definition hasEstablishedSession :: "Lib \<Rightarrow> World \<Rightarrow> string \<Rightarrow> bool" where
  "hasEstablishedSession L W path =
     (case files W path of
        None \<Rightarrow> False
      | Some b \<Rightarrow> anyAssistantLine L (fst (ScanLines L b)))"

text \<open>
  \<open>isValidUUID\<close>.  The source ranges over the runes of a string of 36 bytes with their
  byte offsets; a byte outside ASCII starts a rune that is neither a dash nor a hex
  digit, so the check is the same byte by byte.
\<close>

definition isHexDigit :: "char \<Rightarrow> bool" where
  "isHexDigit c =
     (let n = (of_char c :: nat)
      in (48 \<le> n \<and> n \<le> 57) \<or> (97 \<le> n \<and> n \<le> 102) \<or> (65 \<le> n \<and> n \<le> 70))"

fun uuidChars :: "nat \<Rightarrow> string \<Rightarrow> bool" where
  "uuidChars i [] = True"
| "uuidChars i (c # cs) =
     (if i = 8 \<or> i = 13 \<or> i = 18 \<or> i = 23
      then (if c \<noteq> CHR ''-'' then False else uuidChars (i + 1) cs)
      else if \<not> isHexDigit c then False
      else uuidChars (i + 1) cs)"

definition isValidUUID :: "string \<Rightarrow> bool" where
  "isValidUUID s = (if length s \<noteq> 36 then False else uuidChars 0 s)"

definition lastSessionID :: "Lib \<Rightarrow> World \<Rightarrow> string \<Rightarrow> error + ID" where
  "lastSessionID L W path =
     (case files W path of
        None \<Rightarrow> Inl OpenFileError
      | Some b \<Rightarrow>
          (case ScanLines L b of
             (scanned, scanErr) \<Rightarrow>
               if scanErr then Inl ScanError
               else
                 let lastLine = (case rev scanned of [] \<Rightarrow> [] | l # _ \<Rightarrow> l) in
                 if lastLine = [] then Inl LogFileEmptyError
                 else
                   (case Unmarshal L lastLine of
                      None \<Rightarrow> Inl LogLineDecodeError
                    | Some data \<Rightarrow>
                        (case (case as_string (map_of data ''session_id'') of
                                 Some s \<Rightarrow> Some s
                               | None \<Rightarrow> as_string (map_of data ''sessionId'')) of
                           None \<Rightarrow> Inl NoSessionIDError
                         | Some sid \<Rightarrow>
                             if \<not> isValidUUID sid then Inl (InvalidSessionIDError sid)
                             else Inr sid))))"

text \<open>The session identifier of a parseable snapshot (lines 210-217).\<close>

definition snapshotSID :: "Lib \<Rightarrow> World \<Rightarrow> Context \<Rightarrow> ID option" where
  "snapshotSID L W ctx =
     (case files W (Join L [DIR ctx, contextFileName]) of
        None \<Rightarrow> None
      | Some data \<Rightarrow>
          (case UnmarshalContext L data of
             None \<Rightarrow> None
           | Some savedCtx \<Rightarrow> if SID savedCtx \<noteq> [] then Some (SID savedCtx) else None))"

text \<open>\<open>DetermineSessionID\<close>: the result and the context, whose \<open>SID\<close> it may assign.\<close>

definition DetermineSessionID :: "Lib \<Rightarrow> World \<Rightarrow> Context \<Rightarrow> (error + ID) \<times> Context" where
  "DetermineSessionID L W ctx =
     (case snapshotSID L W ctx of
        Some sid \<Rightarrow> (Inr sid, ctx)
      | None \<Rightarrow>
          (case Log2 L W ctx of
             Inl e \<Rightarrow> (Inl e, ctx)
           | Inr log2 \<Rightarrow>
               (case Log1 L W ctx of
                  Inl e \<Rightarrow> (Inl e, ctx)
                | Inr log1 \<Rightarrow>
                    if hasContent W log2 then
                      (case lastSessionID L W log2 of
                         Inl e \<Rightarrow> (Inl e, ctx)
                       | Inr sid \<Rightarrow> (Inr sid, ctx\<lparr>SID := sid\<rparr>))
                    else if MOD ctx = [] \<and> hasContent W log1 then
                      (case lastSessionID L W log1 of
                         Inl e \<Rightarrow> (Inl e, ctx)
                       | Inr sid \<Rightarrow> (Inr sid, ctx\<lparr>SID := sid\<rparr>))
                    else (Inr (CID ctx), ctx))))"

subsection \<open>The resolver in the specification's vocabulary\<close>

text \<open>A log "has a record with origin other than user".\<close>

fun anyNonUserLine :: "Lib \<Rightarrow> string list \<Rightarrow> bool" where
  "anyNonUserLine L [] = False"
| "anyNonUserLine L (l # ls) =
     (case Unmarshal L l of
        None \<Rightarrow> anyNonUserLine L ls
      | Some msg \<Rightarrow>
          (case as_string (map_of msg ''from'') of
             Some frm \<Rightarrow> frm \<noteq> ''user'' \<or> anyNonUserLine L ls
           | None \<Rightarrow> anyNonUserLine L ls))"

definition hasNonUserRecord :: "Lib \<Rightarrow> World \<Rightarrow> string \<Rightarrow> bool" where
  "hasNonUserRecord L W path =
     (case files W path of
        None \<Rightarrow> False
      | Some b \<Rightarrow> anyNonUserLine L (fst (ScanLines L b)))"

text \<open>
  The priority order (a)-(d), with the test that guards steps (b) and (c) as a
  parameter: the specification guards them by "the log has a record with origin other
  than user", the code by "the log file is not empty".
\<close>

definition spec_resolve ::
    "(string \<Rightarrow> bool) \<Rightarrow> Lib \<Rightarrow> World \<Rightarrow> Context \<Rightarrow> string \<Rightarrow> string \<Rightarrow> error + ID" where
  "spec_resolve guard L W ctx personaLog undiffLog =
     (case snapshotSID L W ctx of
        Some sid \<Rightarrow> Inr sid
      | None \<Rightarrow>
          if guard personaLog then lastSessionID L W personaLog
          else if MOD ctx = [] \<and> guard undiffLog then lastSessionID L W undiffLog
          else Inr (CID ctx))"

section \<open>Configuration and session flags (config.go, flow.go)\<close>

text \<open>\<open>GenusArgs.Prompt\<close> has type \<open>any\<close>: a string, a list, or something else.\<close>

datatype PromptSpec = PromptOther | PromptString string | PromptList "string list"

record GenusArgs =
  Model :: "string list"
  Resume :: "string list"
  Branch :: "string list"
  New :: "string list"
  Prompt :: PromptSpec
  Output :: "string list"
  Safety :: "string list"

type_synonym PersonaVars = "string \<rightharpoonup> string"

record GenusConfig =
  Name :: string
  Exe :: "string list"
  Cmd :: "string list"
  Args :: GenusArgs
  Personas :: "string \<rightharpoonup> PersonaVars"

text \<open>
  \<open>Config\<close>: the genera, kept as an association list with one entry per key (the
  persona table of the configuration is not used by the functions modelled here).
\<close>

record Config =
  Genera :: "(string \<times> GenusConfig) list"

definition GetGenus :: "Config \<Rightarrow> string \<Rightarrow> GenusConfig option" where
  "GetGenus cfg gen = map_of (Genera cfg) gen"

definition GetGenusPersonaVars :: "Config \<Rightarrow> string \<Rightarrow> string \<Rightarrow> PersonaVars" where
  "GetGenusPersonaVars cfg gen md =
     (case map_of (Genera cfg) gen of
        None \<Rightarrow> Map.empty
      | Some genus \<Rightarrow>
          (case Personas genus md of
             Some vars \<Rightarrow> vars
           | None \<Rightarrow>
               [''model'' \<mapsto> md,
                ''model2'' \<mapsto> (if md = ''sonnet'' then ''haiku'' else ''sonnet'')]))"

text \<open>\<open>strings.ReplaceAll\<close> for a non-empty pattern (the only use: \<open>{{key}}\<close>).\<close>

function ReplaceAll :: "string \<Rightarrow> string \<Rightarrow> string \<Rightarrow> string" where
  "ReplaceAll [] old new = []"
| "ReplaceAll (c # cs) old new =
     (if old \<noteq> [] \<and> take (length old) (c # cs) = old
      then new @ ReplaceAll (drop (length old) (c # cs)) old new
      else c # ReplaceAll cs old new)"
  by pat_completeness auto
termination
  by (relation "measure (\<lambda>(s, old, new). length s)") auto

text \<open>
  \<open>RenderFlags\<close> substitutes the variables in the order in which Go iterates over the
  map, which the language leaves open: \<open>order\<close> lists the keys in the order of
  iteration (keys that the map lacks are passed over).
\<close>

definition RenderFlags :: "string list \<Rightarrow> string list \<Rightarrow> PersonaVars \<Rightarrow> string list" where
  "RenderFlags order template vars =
     map (\<lambda>t. fold (\<lambda>key r. case vars key of
                               Some val \<Rightarrow> ReplaceAll r (''{{'' @ key @ ''}}'') val
                             | None \<Rightarrow> r) order t) template"

text \<open>
  \<open>ValidateCommand\<close> reloads the configuration; \<open>cfg\<close> is what \<open>LoadConfig\<close> returns
  (\<open>None\<close>: an error).
\<close>

definition ValidateCommand :: "Config option \<Rightarrow> string \<Rightarrow> error option" where
  "ValidateCommand cfg cmd =
     (case cfg of
        None \<Rightarrow>
          if cmd = ''claude'' \<or> cmd = ''codex'' \<or> cmd = ''bash'' then None
          else Some CommandNotAllowedError
      | Some cf \<Rightarrow>
          if list_ex (\<lambda>(k, genus). case Exe genus of e # _ \<Rightarrow> e = cmd | [] \<Rightarrow> False) (Genera cf)
          then None
          else Some CommandNotAllowedError)"

text \<open>
  \<open>buildSessionFlags\<close>: the flags with the new-session flag, or an error, and the
  context, whose \<open>SID\<close> it may assign.  It reads the filesystem and writes nothing to it.
\<close>

definition buildSessionFlags ::
    "Lib \<Rightarrow> World \<Rightarrow> string list \<Rightarrow> Context \<Rightarrow> GenusConfig \<Rightarrow> PersonaVars
       \<Rightarrow> (error + string list \<times> bool) \<times> Context" where
  "buildSessionFlags L W order c genus personaVars =
     (case Log2 L W c of
        Inl e \<Rightarrow> (Inl e, c)
      | Inr log2 \<Rightarrow>
          (case Log1 L W c of
             Inl e \<Rightarrow> (Inl e, c)
           | Inr log1 \<Rightarrow>
               let sidVars = [''sid'' \<mapsto> SID c] ++ personaVars in
               if hasEstablishedSession L W log2 then
                 (Inr (RenderFlags order (Resume (Args genus)) sidVars, False), c)
               else if hasEstablishedSession L W log1 then
                 (if fileExists W log2 \<and> length (Branch (Args genus)) > 0
                  then (Inr (RenderFlags order (Branch (Args genus)) sidVars, False), c)
                  else (Inr (RenderFlags order (Resume (Args genus)) sidVars, False), c))
               else if fileExists W log2 \<and> CID c \<noteq> SID c then
                 (case new_id W of
                    None \<Rightarrow> (Inl GenerateIDError, c)
                  | Some newSID \<Rightarrow>
                      (Inr (RenderFlags order (New (Args genus)) (sidVars(''sid'' \<mapsto> newSID)),
                            True),
                       c\<lparr>SID := newSID\<rparr>))
               else (Inr (RenderFlags order (New (Args genus)) sidVars, True), c)))"

text \<open>Reading \<open>c.ENV[key]\<close>: the zero value for a nil map and for a missing key.\<close>

definition envGet :: "Context \<Rightarrow> string \<Rightarrow> string" where
  "envGet c key =
     (case ENV c of
        None \<Rightarrow> []
      | Some m \<Rightarrow> (case m key of None \<Rightarrow> [] | Some v \<Rightarrow> v))"

text \<open>
  \<open>CallGenus\<close> up to the arguments that precede the prompt (lines 343-411).  The rest of
  the function assembles prompt, standard input, timeout and process environment from
  values it reads from a copy of \<open>c\<close>; it assigns nothing to \<open>c\<close> and is not modelled.
  \<open>cfg\<close> is the result of \<open>LoadConfig\<close>; \<open>hasStdin\<close> says whether \<open>stdin\<close> is non-nil.
\<close>

record Prepared =
  args :: "string list"
  isNew :: bool

definition CallGenus ::
    "Lib \<Rightarrow> World \<Rightarrow> string list \<Rightarrow> Config option \<Rightarrow> Context \<Rightarrow> string \<Rightarrow> bool
       \<Rightarrow> (error + Prepared) \<times> Context" where
  "CallGenus L W order cfg c cmdArgs hasStdin =
     (case ValidateCall c of
        Some blocked \<Rightarrow> (Inl (Blocked blocked), c)
      | None \<Rightarrow>
          (case cfg of
             None \<Rightarrow> (Inl LoadConfigError, c)
           | Some cf \<Rightarrow>
               (case GetGenus cf (GEN c) of
                  None \<Rightarrow> (Inl UnknownGenusError, c)
                | Some genus \<Rightarrow>
                    (case Exe genus of
                       [] \<Rightarrow> (Inl NoExeError, c)
                     | exe0 # _ \<Rightarrow>
                         (case ValidateCommand cfg exe0 of
                            Some e \<Rightarrow> (Inl e, c)
                          | None \<Rightarrow>
                              let modelPersona =
                                    (if envGet c ''AIMODEL'' \<noteq> [] then envGet c ''AIMODEL''
                                     else MOD c);
                                  personaVars = GetGenusPersonaVars cf (GEN c) modelPersona;
                                  useBashC = (exe0 = ''bash'' \<and> cmdArgs \<noteq> [] \<and> hasStdin);
                                  args0 = Cmd genus
                                    @ (if useBashC then [''-c'', cmdArgs] else [])
                                    @ (if length (Model (Args genus)) > 0
                                       then RenderFlags order (Model (Args genus)) personaVars
                                       else [])
                              in
                              (case buildSessionFlags L W order c genus personaVars of
                                 (Inl e, c1) \<Rightarrow> (Inl e, c1)
                               | (Inr (sessionArgs, isnew), c1) \<Rightarrow>
                                   (case ENV c1 of
                                      None \<Rightarrow> (Inl NilMapPanic, c1)
                                    | Some env \<Rightarrow>
                                        (Inr \<lparr>args = args0 @ sessionArgs
                                                @ Output (Args genus) @ Safety (Args genus),
                                              isNew = isnew\<rparr>,
                                         c1\<lparr>ENV := Some (env(''_AIMUX_NEW_SESSION'' \<mapsto>
                                                 (if isnew then ''true'' else ''false'')))\<rparr>))))))))"

section \<open>The subprocess stream (flow.go, CommandStream and LazyCommandStream)\<close>













section \<open>Concrete library, environment and inputs for the examples\<close>

text \<open>
  A path join for the examples: the non-empty elements separated by slashes (what
  \<open>filepath.Join\<close> yields for elements that need no cleaning).
\<close>

definition join_slash :: "string list \<Rightarrow> string" where
  "join_slash ps =
     (case filter (\<lambda>p. p \<noteq> []) ps of
        [] \<Rightarrow> []
      | q # qs \<Rightarrow> foldl (\<lambda>a b. a @ ''/'' @ b) q qs)"

text \<open>
  Lines of a file for the examples: split at line feeds, the last line may lack one
  (what the scanner delivers for short lines without carriage returns).
\<close>

fun split_lines :: "string \<Rightarrow> string list" where
  "split_lines [] = []"
| "split_lines (c # cs) =
     (if c = CHR 0x0A then [] # split_lines cs
      else (case split_lines cs of
              [] \<Rightarrow> [[c]]
            | l # ls \<Rightarrow> (c # l) # ls))"

text \<open>A decoder given by a finite table from lines to the records they encode.\<close>

definition table_lib :: "(string \<times> jobj) list \<Rightarrow> Lib" where
  "table_lib table =
     \<lparr>Unmarshal = map_of table, UnmarshalContext = (\<lambda>_. None), Join = join_slash,
      ScanLines = (\<lambda>b. (split_lines b, False))\<rparr>"

definition world_ok :: World where
  "world_ok =
     \<lparr>home = Some ''/home/u'', files = Map.empty, mkdir_ok = True, open_ok = True,
      new_id = Some ''0f0e0d0c-0b0a-4908-8706-050403020100''\<rparr>"

definition fresh_ctx :: Context where
  "fresh_ctx =
     \<lparr>CID = ''C'', SID = ''C'', TOP = [], TAG = ''claude'', GEN = ''claude'', MOD = [],
      LVL = 0, WTF = False, DIR = ''/home/u/.aimux/conversations/C/claude'',
      ENV = Some Map.empty\<rparr>"

definition fresh_log :: string where
  "fresh_log = ''/home/u/.aimux/conversations/C/claude/log.jsonl''"







text \<open>Two assistant records that carry different session identifiers.\<close>

definition assistant_S1_line :: string where
  \<open>assistant_S1_line =
     ''{"type":"assistant","session_id":"S1","message":{"content":[{"text":"hi"}]}}''\<close>

definition assistant_S1_record :: jobj where
  "assistant_S1_record =
     [(''type'', JString ''assistant''), (''session_id'', JString ''S1''),
      (''message'', JObject [(''content'', JArray [JObject [(''text'', JString ''hi'')]])])]"

definition assistant_S2_line :: string where
  \<open>assistant_S2_line =
     ''{"type":"assistant","session_id":"S2","message":{"content":[{"text":"there"}]}}''\<close>

definition assistant_S2_record :: jobj where
  "assistant_S2_record =
     [(''type'', JString ''assistant''), (''session_id'', JString ''S2''),
      (''message'', JObject [(''content'', JArray [JObject [(''text'', JString ''there'')]])])]"

definition assistant_table :: "(string \<times> jobj) list" where
  "assistant_table =
     [(assistant_S1_line, assistant_S1_record), (assistant_S2_line, assistant_S2_record)]"

text \<open>
  A branched conversation (\<open>SID\<close> differs from \<open>CID\<close>) under persona \<open>architect\<close>,
  whose persona log exists and is empty and whose undifferentiated log does not exist.
\<close>

definition branch_ctx :: Context where
  "branch_ctx =
     \<lparr>CID = ''C'', SID = ''B'', TOP = [], TAG = ''architect~claude'', GEN = ''claude'',
      MOD = ''architect'', LVL = 0, WTF = False,
      DIR = ''/home/u/.aimux/conversations/C/claude/architect'', ENV = Some Map.empty\<rparr>"

definition branch_log2 :: string where
  "branch_log2 = ''/home/u/.aimux/conversations/C/claude/architect/log.jsonl''"

definition branch_log1 :: string where
  "branch_log1 = ''/home/u/.aimux/conversations/C/claude/log.jsonl''"

definition branch_world :: World where
  "branch_world = world_ok\<lparr>files := [branch_log2 \<mapsto> []]\<rparr>"

definition claude_genus :: GenusConfig where
  "claude_genus =
     \<lparr>Name = ''claude'', Exe = [''claude''], Cmd = [],
      Args = \<lparr>Model = [], Resume = [''--resume'', ''{{sid}}''],
               Branch = [''--resume'', ''{{sid}}'', ''--fork-session''],
               New = [''--session-id'', ''{{sid}}''], Prompt = PromptOther,
               Output = [], Safety = []\<rparr>,
      Personas = Map.empty\<rparr>"

text \<open>
  A resumed conversation under persona \<open>architect\<close> without snapshot, whose persona log
  holds one record, of origin \<open>user\<close>, and whose undifferentiated log does not exist.
\<close>

definition resume_ctx :: Context where
  "resume_ctx =
     \<lparr>CID = ''aaaaaaaa-0000-4000-8000-000000000001'',
      SID = ''aaaaaaaa-0000-4000-8000-000000000001'', TOP = [],
      TAG = ''architect~claude'', GEN = ''claude'', MOD = ''architect'', LVL = 0, WTF = False,
      DIR = ''/home/u/.aimux/conversations/aaaaaaaa-0000-4000-8000-000000000001/claude/architect'',
      ENV = Some Map.empty\<rparr>"

definition resume_log2 :: string where
  "resume_log2 =
     ''/home/u/.aimux/conversations/aaaaaaaa-0000-4000-8000-000000000001/claude/architect/log.jsonl''"

definition resume_log1 :: string where
  "resume_log1 =
     ''/home/u/.aimux/conversations/aaaaaaaa-0000-4000-8000-000000000001/claude/log.jsonl''"

definition user_line :: string where
  \<open>user_line =
     ''{"session_id":"bbbbbbbb-1111-4111-8111-000000000002","at":"2025-01-01T00:00:00Z","from":"user","body":"hello"}''\<close>

definition user_record :: jobj where
  "user_record =
     [(''session_id'', JString ''bbbbbbbb-1111-4111-8111-000000000002''),
      (''at'', JString ''2025-01-01T00:00:00Z''), (''from'', JString ''user''),
      (''body'', JString ''hello'')]"

definition resume_world :: World where
  "resume_world = world_ok\<lparr>files := [resume_log2 \<mapsto> user_line @ nl]\<rparr>"




section \<open>Call-graph validation: results\<close>

lemma SplitSep_nonempty: "SplitSep s \<noteq> []"
  by (induction s) (auto split: list.splits)

lemma SplitSep_first: "SplitSep s = p # ps \<Longrightarrow> p = takeWhile (\<lambda>x. x \<noteq> CHR ''~'') s"
  using SplitSep_nonempty
  by (induction s arbitrary: p ps) (auto split: list.splits if_splits)

lemma engineer_rule_role:
  "(ContainsSep t \<and> (case SplitSep t of p # _ \<Rightarrow> p = ''engineer'' | [] \<Rightarrow> False))
     = (role_component t = Some terminal_role)"
proof (cases "SplitSep t")
  case Nil
  then show ?thesis using SplitSep_nonempty by blast
next
  case (Cons p ps)
  then show ?thesis
    using SplitSep_first [OF Cons]
    by (auto simp: ContainsSep_def role_component_def terminal_role_def)
qed

lemma no_sep_no_role: "(\<not> ContainsSep t) = (role_component t = None)"
  by (simp add: ContainsSep_def role_component_def)

lemma role_component_empty: "role_component [] = None"
  by (simp add: role_component_def)

text \<open>
  C1 (as stated): validation is the four-rule table with rule 4 firing for every caller
  tag that has no role component.  The code does not behave so for the empty caller tag:
  a top-level call to the engineer persona is allowed, where the table denies with
  code 5.
\<close>

theorem C1_rule4_empty_caller_counterexample:
  "observed_code (ValidateCall top_level_engineer_call) = None \<and>
   outcome_code (spec_Validate top_level_engineer_call) = Some 5"
  by (simp add: observed_code_def outcome_code_def ValidateCall_def spec_Validate_def
      top_level_engineer_call_def role_component_def terminal_role_def)

text \<open>
  C1 (amended): for every context, \<open>ValidateCall\<close> yields exactly the outcome of the
  four-rule table, first match winning, where rule 4 applies only to a non-empty caller
  tag without role component: depth >= 3 gives code 3; else an equal non-empty callee
  and caller tag gives code 1; else a caller tag whose role component is \<open>engineer\<close>
  gives code 4; else a non-empty caller tag without role component together with persona
  \<open>engineer\<close> gives code 5; otherwise the call is allowed.
\<close>

theorem C1_ValidateCall_table:
  "observed_code (ValidateCall c) = outcome_code (spec_Validate_nonempty_caller c)"
proof -
  have r3: "(TOP c \<noteq> [] \<and> ContainsSep (TOP c) \<and>
             (case SplitSep (TOP c) of p # _ \<Rightarrow> p = ''engineer'' | [] \<Rightarrow> False))
            = (role_component (TOP c) = Some terminal_role)"
    using engineer_rule_role [of "TOP c"] role_component_empty by auto
  have r4: "(TOP c \<noteq> [] \<and> \<not> ContainsSep (TOP c) \<and> MOD c = ''engineer'')
            = (TOP c \<noteq> [] \<and> role_component (TOP c) = None \<and> MOD c = terminal_role)"
    by (simp add: no_sep_no_role terminal_role_def)
  show ?thesis
    unfolding ValidateCall_def spec_Validate_nonempty_caller_def r3 r4
    by (simp add: observed_code_def outcome_code_def)
qed

text \<open>
  C10: when the caller tag \<open>TOP\<close> is empty, validation can deny only for depth.  With
  depth below 3 the call is allowed whatever genus, persona and callee tag are; with
  depth 3 or more the denial is the depth denial (code 3).
\<close>

theorem C10_empty_caller_only_depth:
  assumes "TOP c = []"
  shows "ValidateCall c =
           (if LVL c < 3 then None
            else Some \<lparr>Code = 3, Message = DepthExceededMsg (LVL c)\<rparr>)"
  using assms by (auto simp: ValidateCall_def ContainsSep_def)

theorem C10_empty_caller_witness:
  "TOP top_level_engineer_call = [] \<and> LVL top_level_engineer_call < 3 \<and>
   ValidateCall top_level_engineer_call = None \<and>
   ValidateCall (top_level_engineer_call\<lparr>LVL := 3\<rparr>) =
     Some \<lparr>Code = 3, Message = DepthExceededMsg 3\<rparr>"
proof -
  have t: "TOP top_level_engineer_call = []"
    by (simp add: top_level_engineer_call_def)
  have t3: "TOP (top_level_engineer_call\<lparr>LVL := 3\<rparr>) = []"
    by (simp add: top_level_engineer_call_def)
  show ?thesis
    using C10_empty_caller_only_depth [OF t] C10_empty_caller_only_depth [OF t3]
    by (simp add: top_level_engineer_call_def)
qed

section \<open>Streaming interpreter: results\<close>

subsection \<open>What each part of an iteration changes\<close>

lemma flow_state_simps [simp]:
  "flow_state (Next s) = s" "flow_state (Stop s) = s" "flow_state (Fail e s) = s"
  by (simp_all add: flow_state_def)

lemma markError_fields [simp]:
  "cx (markError d s) = cx s"
  "written (markError d s) = written s"
  "fsops (markError d s) = fsops s"
  "format (markError d s) = format s"
  "totalOutput (markError d s) = totalOutput s"
  "sidSaved (markError d s) = sidSaved s"
  "logFile (markError d s) = logFile s"
  "streamHasError (markError d s) = (isErrorRecord d \<or> streamHasError s)"
  "pendingSID (markError d s) = (if isErrorRecord d then [] else pendingSID s)"
  by (simp_all add: markError_def)

lemma collectSID_fields [simp]:
  "cx (collectSID d s) = cx s"
  "written (collectSID d s) = written s"
  "fsops (collectSID d s) = fsops s"
  "format (collectSID d s) = format s"
  "totalOutput (collectSID d s) = totalOutput s"
  "sidSaved (collectSID d s) = sidSaved s"
  "logFile (collectSID d s) = logFile s"
  "streamHasError (collectSID d s) = streamHasError s"
  by (simp_all add: collectSID_def split: option.splits)


lemma flushSID_fields [simp]:
  "written (flushSID s) = written s"
  "format (flushSID s) = format s"
  "totalOutput (flushSID s) = totalOutput s"
  "logFile (flushSID s) = logFile s"
  "streamHasError (flushSID s) = streamHasError s"
  "pendingSID (flushSID s) = pendingSID s"
  by (simp_all add: flushSID_def Let_def)

lemma flushSID_error [simp]: "streamHasError s \<Longrightarrow> flushSID s = s"
  by (simp add: flushSID_def)

lemma flushSID_frame [simp]: "(cx (flushSID s))\<lparr>SID := x\<rparr> = (cx s)\<lparr>SID := x\<rparr>"
  by (simp add: flushSID_def Let_def)

lemma handleText_fields [simp]:
  "cx (handleText s line) = cx s"
  "streamHasError (handleText s line) = streamHasError s"
  "pendingSID (handleText s line) = pendingSID s"
  "sidSaved (handleText s line) = sidSaved s"
  "format (handleText s line) = format s"
  "totalOutput (handleText s line) = totalOutput s + length line"
  "written (handleText s line) = written s @ line @ nl"
  by (simp_all add: handleText_def Let_def)

lemma handleOther_fields [simp]:
  "cx (handleOther s line) = cx s"
  "streamHasError (handleOther s line) = streamHasError s"
  "pendingSID (handleOther s line) = pendingSID s"
  "sidSaved (handleOther s line) = sidSaved s"
  "format (handleOther s line) = format s"
  "totalOutput (handleOther s line) = totalOutput s + length line"
  "written (handleOther s line) = written s @ line @ nl"
  "fsops (handleOther s line) = fsops s"
  by (simp_all add: handleOther_def)

lemma openOutputs_fields:
  "openOutputs L W s = Inr s' \<Longrightarrow>
     cx s' = cx s \<and> streamHasError s' = streamHasError s \<and> format s' = format s \<and>
     totalOutput s' = totalOutput s \<and> written s' = written s \<and> logFile s'"
  "openOutputs L W s = Inl (e, s') \<Longrightarrow>
     cx s' = cx s \<and> streamHasError s' = streamHasError s \<and> format s' = format s \<and>
     totalOutput s' = totalOutput s \<and> written s' = written s"
  by (auto simp: openOutputs_def Let_def split: if_splits sum.splits)



lemma handleJSON_frame [simp]:
  "(cx (handleJSON L s line))\<lparr>SID := x\<rparr> = (cx s)\<lparr>SID := x\<rparr>"
  by (simp add: handleJSON_def Let_def split: option.splits)




subsection \<open>The error flag is sticky; the context keeps every field but the session identifier\<close>


lemma step_frame: "(cx (flow_state (step L W s line)))\<lparr>SID := x\<rparr> = (cx s)\<lparr>SID := x\<rparr>"
proof (cases "format s = [] \<and> line \<noteq> []")
  case True
  show ?thesis
  proof (cases "openOutputs L W (s\<lparr>lineNumber := lineNumber s + 1, format := detectFormat line\<rparr>)")
    case (Inl a)
    obtain e s' where a: "a = (e, s')" by (cases a)
    show ?thesis using True Inl a openOutputs_fields(2) [OF Inl [unfolded a]]
      by (simp add: step_def Let_def)
  next
    case (Inr s')
    show ?thesis using True Inr openOutputs_fields(1) [OF Inr]
      by (simp add: step_def Let_def)
  qed
next
  case False
  then show ?thesis
    by (auto simp: step_def Let_def)
qed


lemma drain_frame: "(cx (flow_state (drain L W s ls)))\<lparr>SID := x\<rparr> = (cx s)\<lparr>SID := x\<rparr>"
proof (induction ls arbitrary: s)
  case Nil
  then show ?case by simp
next
  case (Cons l ls)
  from step_frame [where L = L and W = W and s = s and line = l and x = x] Cons.IH
  show ?case by (cases "step L W s l") auto
qed

lemma finalize_frame [simp]: "(cx (finalize s))\<lparr>SID := x\<rparr> = (cx s)\<lparr>SID := x\<rparr>"
  by (simp add: finalize_def Let_def)

lemma StreamAndLog_frame:
  "(cx (snd (StreamAndLog L W c ls scanErr)))\<lparr>SID := x\<rparr> = c\<lparr>SID := x\<rparr>"
proof -
  have i: "cx (initState c) = c" by (simp add: initState_def)
  show ?thesis
    using drain_frame [where L = L and W = W and s = "initState c" and ls = ls and x = x]
    by (cases "drain L W (initState c) ls") (simp_all add: StreamAndLog_def afterLoop_def i)
qed

subsection \<open>Error records\<close>









lemma world_ok_shape:
  "home world_ok = Some ''/home/u''" "mkdir_ok world_ok" "open_ok world_ok"
  by (simp_all add: world_ok_def)


subsection \<open>Session identifiers observed in a stream\<close>

lemma fresh_ctx_Log3: "Log3 (table_lib t) world_ok fresh_ctx = Inr fresh_log"
  by (simp add: Log3_def Dir2_def Dir1_def fresh_ctx_def world_ok_def table_lib_def
      join_slash_def fresh_log_def aimuxDir_def conversationsDir_def logFileName_def)

lemma fresh_ctx_SID: "SID fresh_ctx = ''C''"
  by (simp add: fresh_ctx_def)

lemma assistant_table_decodes:
  "Unmarshal (table_lib assistant_table) assistant_S1_line = Some assistant_S1_record"
  "Unmarshal (table_lib assistant_table) assistant_S2_line = Some assistant_S2_record"
  by (simp_all add: table_lib_def assistant_table_def assistant_S1_line_def
      assistant_S2_line_def)

lemma assistant_records_read:
  "\<not> isErrorRecord assistant_S1_record" "\<not> explicitErrorType assistant_S1_record"
  "as_string (map_of assistant_S1_record ''type'') = Some ''assistant''"
  "recordSessionID assistant_S1_record = Some ''S1''"
  "extractText assistant_S1_record = ''hi''"
  "map_of assistant_S1_record ''session_id'' \<noteq> None"
  "\<not> isErrorRecord assistant_S2_record" "\<not> explicitErrorType assistant_S2_record"
  "as_string (map_of assistant_S2_record ''type'') = Some ''assistant''"
  "recordSessionID assistant_S2_record = Some ''S2''"
  "extractText assistant_S2_record = ''there''"
  "map_of assistant_S2_record ''session_id'' \<noteq> None"
  by (simp_all add: isErrorRecord_def explicitErrorType_def assistant_S1_record_def
      assistant_S2_record_def as_string_def as_bool_def as_object_def as_array_def
      recordSessionID_def extractText_def messageContent_def)

lemma assistant_lines_shape:
  "assistant_S1_line \<noteq> []" "detectFormat assistant_S1_line = ''json''"
  by (simp_all add: assistant_S1_line_def detectFormat_def)

text \<open>
  C4, the code at the failing input: a structured stream of two assistant records, the
  first with session identifier \<open>S1\<close>, the second with \<open>S2\<close>, drained into a
  context whose identifier is \<open>C\<close>.  The first identifier is applied and saved at its
  line; the second, distinct one is observed with no error in the stream and is neither
  applied nor saved: the drain ends with identifier \<open>S1\<close>, and the only snapshots written
  are the one at format detection and the one for \<open>S1\<close>.
\<close>

theorem C4_second_session_id_ignored:
  "fst (StreamAndLog (table_lib assistant_table) world_ok fresh_ctx
          [assistant_S1_line, assistant_S2_line] False) = None \<and>
   SID (cx (snd (StreamAndLog (table_lib assistant_table) world_ok fresh_ctx
          [assistant_S1_line, assistant_S2_line] False))) = ''S1'' \<and>
   written (snd (StreamAndLog (table_lib assistant_table) world_ok fresh_ctx
          [assistant_S1_line, assistant_S2_line] False)) = ''hithere'' \<and>
   fsops (snd (StreamAndLog (table_lib assistant_table) world_ok fresh_ctx
          [assistant_S1_line, assistant_S2_line] False)) =
     [MkdirAll (DIR fresh_ctx), SaveContext fresh_ctx, OpenLog fresh_log,
      LogWrite (RawLine assistant_S1_line), SaveContext (fresh_ctx\<lparr>SID := ''S1''\<rparr>),
      LogWrite (RawLine assistant_S2_line)]"
proof -
  let ?L = "table_lib assistant_table"
  have h1: "handleJSON ?L s assistant_S1_line =
      (let s2 = s\<lparr>fsops := fsops s @ [LogWrite (RawLine assistant_S1_line)]\<rparr>;
           s4 = flushSID (collectSID assistant_S1_record s2)
       in s4\<lparr>totalOutput := totalOutput s4 + 2, written := written s4 @ ''hi''\<rparr>)" for s
    by (simp add: handleJSON_def assistant_table_decodes assistant_records_read markError_def
        Let_def)
  have h2: "handleJSON ?L s assistant_S2_line =
      (let s2 = s\<lparr>fsops := fsops s @ [LogWrite (RawLine assistant_S2_line)]\<rparr>;
           s4 = flushSID (collectSID assistant_S2_record s2)
       in s4\<lparr>totalOutput := totalOutput s4 + 5, written := written s4 @ ''there''\<rparr>)" for s
    by (simp add: handleJSON_def assistant_table_decodes assistant_records_read markError_def
        Let_def)
  have r: "StreamAndLog ?L world_ok fresh_ctx [assistant_S1_line, assistant_S2_line] False =
     (None, (initState fresh_ctx)\<lparr>cx := fresh_ctx\<lparr>SID := ''S1''\<rparr>, written := ''hithere'',
        fsops := [MkdirAll (DIR fresh_ctx), SaveContext fresh_ctx, OpenLog fresh_log,
          LogWrite (RawLine assistant_S1_line), SaveContext (fresh_ctx\<lparr>SID := ''S1''\<rparr>),
          LogWrite (RawLine assistant_S2_line)],
        format := ''json'', totalOutput := 7, lineNumber := 2, pendingSID := ''S1'',
        sidSaved := True, sidLogged := True, logFile := True\<rparr>)"
    by (simp add: StreamAndLog_def step_def openOutputs_def fresh_ctx_Log3 world_ok_shape
        assistant_lines_shape h1 h2 collectSID_def flushSID_def assistant_records_read
        initState_def Let_def afterLoop_def finalize_def MaxOutputSize_def fresh_ctx_SID)
  show ?thesis unfolding r by simp
qed

subsection \<open>Streams without output\<close>

lemma drain_empty_lines:
  assumes "format s = []" "totalOutput s = 0"
  shows "\<exists>s'. drain L W s (replicate n []) = Next s' \<and> fsops s' = fsops s \<and> cx s' = cx s \<and>
           streamHasError s' = streamHasError s \<and> sidSaved s' = sidSaved s \<and>
           pendingSID s' = pendingSID s \<and> written s' = written s @ concat (replicate n nl)"
  using assms
proof (induction n arbitrary: s)
  case 0
  then show ?case by simp
next
  case (Suc n)
  let ?s1 = "handleOther (s\<lparr>lineNumber := lineNumber s + 1\<rparr>) []"
  have st: "step L W s [] = Next ?s1"
    using Suc.prems by (simp add: step_def Let_def MaxOutputSize_def)
  have "format ?s1 = []" "totalOutput ?s1 = 0" using Suc.prems by simp_all
  from Suc.IH [OF this] st show ?case by auto
qed

text \<open>
  C6, the code on streams without output: for a stream of \<open>n\<close> empty lines (\<open>n = 0\<close>:
  no line at all) that ends without read error, the loop issues no filesystem
  operation, and the end-of-stream step then calls \<open>saveContext\<close>: the snapshot write
  is the one filesystem operation of the drain.
\<close>

theorem C6_no_output_still_saves_context:
  "fsops (flow_state (drain L W (initState c) (replicate n []))) = [] \<and>
   fst (StreamAndLog L W c (replicate n []) False) = None \<and>
   fsops (snd (StreamAndLog L W c (replicate n []) False)) = [SaveContext c]"
proof -
  have i: "format (initState c) = []" "totalOutput (initState c) = 0"
    by (simp_all add: initState_def)
  from drain_empty_lines [OF i, of L W n] obtain s' where
    s': "drain L W (initState c) (replicate n []) = Next s'" "fsops s' = []" "cx s' = c"
      "\<not> streamHasError s'" "\<not> sidSaved s'" "pendingSID s' = []"
    by (auto simp: initState_def)
  show ?thesis
    using s' by (simp add: StreamAndLog_def afterLoop_def finalize_def Let_def)
qed

section \<open>Frame of the lifecycle and interpreter operations\<close>

lemma buildSessionFlags_frame:
  "(snd (buildSessionFlags L W order c genus personaVars))\<lparr>SID := x\<rparr> = c\<lparr>SID := x\<rparr>"
  by (simp add: buildSessionFlags_def Let_def split: sum.splits option.splits)

lemma CallGenus_frame:
  "(snd (CallGenus L W order cfg c cmdArgs hasStdin))\<lparr>SID := x, ENV := y\<rparr>
     = c\<lparr>SID := x, ENV := y\<rparr>"
proof -
  have b: "(snd (buildSessionFlags L W order c genus personaVars))\<lparr>SID := x, ENV := y\<rparr>
             = c\<lparr>SID := x, ENV := y\<rparr>" for genus personaVars
    using buildSessionFlags_frame [where L = L and W = W and order = order and c = c
        and genus = genus and personaVars = personaVars and x = x]
    by (metis Context.surjective Context.update_convs(2) Context.update_convs(10))
  have k: "(snd (case r of
                  (Inl e, c1) \<Rightarrow> (Inl e, c1)
                | (Inr (sessionArgs, isnew), c1) \<Rightarrow>
                    (case ENV c1 of
                       None \<Rightarrow> (Inl NilMapPanic, c1)
                     | Some env \<Rightarrow> (Inr (f sessionArgs isnew), c1\<lparr>ENV := Some (g env isnew)\<rparr>))))
             \<lparr>SID := x, ENV := y\<rparr> = (snd r)\<lparr>SID := x, ENV := y\<rparr>"
    for r :: "(error + string list \<times> bool) \<times> Context" and f :: "string list \<Rightarrow> bool \<Rightarrow> Prepared" and g
    by (cases r) (auto split: sum.splits option.splits)
  show ?thesis
    unfolding CallGenus_def Let_def
    by (simp add: k b split: option.splits list.splits)
qed

text \<open>
  C9: \<open>CallGenus\<close>, \<open>buildSessionFlags\<close> and \<open>StreamAndLog\<close> leave the conversation
  identifier of the context as it was, whatever they return.  More precisely,
  \<open>CallGenus\<close> changes at most the fields \<open>SID\<close> and \<open>ENV\<close>, and \<open>buildSessionFlags\<close> and
  \<open>StreamAndLog\<close> change at most \<open>SID\<close>.
\<close>

theorem C9_conversation_id_frame:
  "CID (snd (CallGenus L W order cfg c cmdArgs hasStdin)) = CID c \<and>
   (snd (CallGenus L W order cfg c cmdArgs hasStdin))\<lparr>SID := SID c, ENV := ENV c\<rparr> = c \<and>
   CID (snd (buildSessionFlags L W order c genus personaVars)) = CID c \<and>
   (snd (buildSessionFlags L W order c genus personaVars))\<lparr>SID := SID c\<rparr> = c \<and>
   CID (cx (snd (StreamAndLog L W c lines scanErr))) = CID c \<and>
   (cx (snd (StreamAndLog L W c lines scanErr)))\<lparr>SID := SID c\<rparr> = c"
proof -
  have g: "(snd (CallGenus L W order cfg c cmdArgs hasStdin))\<lparr>SID := SID c, ENV := ENV c\<rparr> = c"
    using CallGenus_frame [where x = "SID c" and y = "ENV c" and c = c] by simp
  have b: "(snd (buildSessionFlags L W order c genus personaVars))\<lparr>SID := SID c\<rparr> = c"
    using buildSessionFlags_frame [where x = "SID c" and c = c] by simp
  have s: "(cx (snd (StreamAndLog L W c lines scanErr)))\<lparr>SID := SID c\<rparr> = c"
    using StreamAndLog_frame [where x = "SID c" and c = c] by simp
  have g': "CID (snd (CallGenus L W order cfg c cmdArgs hasStdin)) = CID c"
    using arg_cong [OF g, of CID] by simp
  have b': "CID (snd (buildSessionFlags L W order c genus personaVars)) = CID c"
    using arg_cong [OF b, of CID] by simp
  have s': "CID (cx (snd (StreamAndLog L W c lines scanErr))) = CID c"
    using arg_cong [OF s, of CID] by simp
  show ?thesis using g b s g' b' s' by simp
qed

section \<open>Session flags: results\<close>

text \<open>
  C8: when neither the persona-specific nor the undifferentiated log holds an assistant
  record (and the log paths resolve), \<open>buildSessionFlags\<close> starts a new session
  (\<open>isNew\<close> is true, the flags are the rendered \<open>New\<close> template) and
  \<^item> if the persona-specific log exists, even empty, and \<open>CID\<close> differs from \<open>SID\<close>, it
    calls \<open>NewID\<close>: when that yields \<open>n\<close>, the context's \<open>SID\<close> becomes \<open>n\<close> and the flags
    are rendered with \<open>n\<close>; when the random source fails, the error is returned and the
    context is unchanged;
  \<^item> otherwise, in particular whenever \<open>CID = SID\<close>, the context is unchanged and the flags
    are rendered with the present \<open>SID\<close>.
  The function has no filesystem output at all (the code only reads), so the new
  identifier lives in the context only.
\<close>

theorem C8_mint_session_id:
  assumes "Log2 L W c = Inr log2" and "Log1 L W c = Inr log1"
    and "\<not> hasEstablishedSession L W log2" and "\<not> hasEstablishedSession L W log1"
  shows "(fileExists W log2 \<and> CID c \<noteq> SID c \<and> new_id W = Some n \<longrightarrow>
            buildSessionFlags L W order c genus personaVars =
              (Inr (RenderFlags order (New (Args genus))
                      (([''sid'' \<mapsto> SID c] ++ personaVars)(''sid'' \<mapsto> n)), True),
               c\<lparr>SID := n\<rparr>)) \<and>
         (fileExists W log2 \<and> CID c \<noteq> SID c \<and> new_id W = None \<longrightarrow>
            buildSessionFlags L W order c genus personaVars = (Inl GenerateIDError, c)) \<and>
         (\<not> (fileExists W log2 \<and> CID c \<noteq> SID c) \<longrightarrow>
            buildSessionFlags L W order c genus personaVars =
              (Inr (RenderFlags order (New (Args genus)) ([''sid'' \<mapsto> SID c] ++ personaVars),
                    True), c)) \<and>
         (CID c = SID c \<longrightarrow> snd (buildSessionFlags L W order c genus personaVars) = c) \<and>
         (files W log2 = Some [] \<and> CID c \<noteq> SID c \<and> new_id W = Some n \<longrightarrow>
            SID (snd (buildSessionFlags L W order c genus personaVars)) = n)"
  using assms
  by (simp add: buildSessionFlags_def Let_def fileExists_def)

lemma branch_paths:
  "Log2 (table_lib t) branch_world branch_ctx = Inr branch_log2"
  "Log1 (table_lib t) branch_world branch_ctx = Inr branch_log1"
  by (simp_all add: Log2_def Log1_def Dir1_def branch_ctx_def branch_world_def world_ok_def
      table_lib_def join_slash_def branch_log2_def branch_log1_def aimuxDir_def
      conversationsDir_def logFileName_def)

lemma branch_logs:
  "\<not> hasEstablishedSession (table_lib t) branch_world branch_log2"
  "\<not> hasEstablishedSession (table_lib t) branch_world branch_log1"
  "files branch_world branch_log2 = Some []"
  "fileExists branch_world branch_log2"
  by (simp_all add: hasEstablishedSession_def branch_world_def table_lib_def fileExists_def
      branch_log2_def branch_log1_def)

theorem C8_mint_session_id_witness:
  "Log2 (table_lib []) branch_world branch_ctx = Inr branch_log2 \<and>
   Log1 (table_lib []) branch_world branch_ctx = Inr branch_log1 \<and>
   \<not> hasEstablishedSession (table_lib []) branch_world branch_log2 \<and>
   \<not> hasEstablishedSession (table_lib []) branch_world branch_log1 \<and>
   files branch_world branch_log2 = Some [] \<and> CID branch_ctx \<noteq> SID branch_ctx \<and>
   new_id branch_world = Some ''0f0e0d0c-0b0a-4908-8706-050403020100'' \<and>
   buildSessionFlags (table_lib []) branch_world [''sid''] branch_ctx claude_genus Map.empty =
     (Inr ([''--session-id'', ''0f0e0d0c-0b0a-4908-8706-050403020100''], True),
      branch_ctx\<lparr>SID := ''0f0e0d0c-0b0a-4908-8706-050403020100''\<rparr>) \<and>
   buildSessionFlags (table_lib []) branch_world [''sid''] (branch_ctx\<lparr>SID := ''C''\<rparr>)
       claude_genus Map.empty =
     (Inr ([''--session-id'', ''C''], True), branch_ctx\<lparr>SID := ''C''\<rparr>) \<and>
   new_id (branch_world\<lparr>new_id := None\<rparr>) = None \<and>
   buildSessionFlags (table_lib []) (branch_world\<lparr>new_id := None\<rparr>) [''sid''] branch_ctx
       claude_genus Map.empty = (Inl GenerateIDError, branch_ctx)"
proof -
  have q: "Log2 (table_lib []) (branch_world\<lparr>new_id := None\<rparr>) branch_ctx = Inr branch_log2"
    "Log1 (table_lib []) (branch_world\<lparr>new_id := None\<rparr>) branch_ctx = Inr branch_log1"
    "\<not> hasEstablishedSession (table_lib []) (branch_world\<lparr>new_id := None\<rparr>) branch_log2"
    "\<not> hasEstablishedSession (table_lib []) (branch_world\<lparr>new_id := None\<rparr>) branch_log1"
    "fileExists (branch_world\<lparr>new_id := None\<rparr>) branch_log2"
    using branch_paths [of "[]"] branch_logs(1,2) [of "[]"] branch_logs(4)
    by (simp_all add: Log2_def Log1_def Dir1_def hasEstablishedSession_def fileExists_def)
  note t3 = C8_mint_session_id [OF q(1) q(2) q(3) q(4),
      where order = "[''sid'']" and genus = claude_genus and personaVars = Map.empty]
  have n: "new_id branch_world = Some ''0f0e0d0c-0b0a-4908-8706-050403020100''"
    by (simp add: branch_world_def world_ok_def)
  have d: "CID branch_ctx \<noteq> SID branch_ctx" "CID branch_ctx = ''C''"
    by (simp_all add: branch_ctx_def)
  have p': "Log2 (table_lib []) branch_world (branch_ctx\<lparr>SID := ''C''\<rparr>) = Inr branch_log2"
    "Log1 (table_lib []) branch_world (branch_ctx\<lparr>SID := ''C''\<rparr>) = Inr branch_log1"
    by (simp_all add: Log2_def Log1_def Dir1_def branch_ctx_def branch_world_def world_ok_def
        table_lib_def join_slash_def branch_log2_def branch_log1_def aimuxDir_def
        conversationsDir_def logFileName_def)
  have r: "RenderFlags [''sid''] (New (Args claude_genus)) [''sid'' \<mapsto> x]
             = [''--session-id'', x]" for x
    by (simp add: RenderFlags_def claude_genus_def)
  note t1 = C8_mint_session_id [OF branch_paths(1) [of "[]"] branch_paths(2) [of "[]"]
      branch_logs(1) [of "[]"] branch_logs(2) [of "[]"],
      where n = "''0f0e0d0c-0b0a-4908-8706-050403020100''" and order = "[''sid'']"
        and genus = claude_genus and personaVars = Map.empty]
  note t2 = C8_mint_session_id [OF p' branch_logs(1) [of "[]"] branch_logs(2) [of "[]"],
      where n = "''0f0e0d0c-0b0a-4908-8706-050403020100''" and order = "[''sid'']"
        and genus = claude_genus and personaVars = Map.empty]
  show ?thesis
    using t1 t2 t3 q(5) n d branch_paths [of "[]"] branch_logs
    by (simp add: r)
qed

section \<open>Session identity resolution: results\<close>

lemma resume_paths:
  "Log2 (table_lib t) resume_world resume_ctx = Inr resume_log2"
  "Log1 (table_lib t) resume_world resume_ctx = Inr resume_log1"
  by (simp_all add: Log2_def Log1_def Dir1_def resume_ctx_def resume_world_def world_ok_def
      table_lib_def join_slash_def resume_log2_def resume_log1_def aimuxDir_def
      conversationsDir_def logFileName_def)

lemma resume_no_snapshot: "snapshotSID (table_lib t) resume_world resume_ctx = None"
  by (simp add: snapshotSID_def resume_world_def world_ok_def table_lib_def join_slash_def
      resume_ctx_def resume_log2_def contextFileName_def)

lemma split_lines_line:
  "CHR 0x0A \<notin> set l \<Longrightarrow> l \<noteq> [] \<Longrightarrow> split_lines (l @ nl) = [l]"
proof (induction l)
  case Nil
  then show ?case by simp
next
  case (Cons a l)
  then show ?case by (cases l) (auto simp: nl_def)
qed

lemma user_line_scanned: "split_lines (user_line @ nl) = [user_line]"
  by (rule split_lines_line) (simp_all add: user_line_def)

lemma resume_log2_content:
  "files resume_world resume_log2 = Some (user_line @ nl)"
  "files resume_world resume_log1 = None"
  "hasContent resume_world resume_log2"
  by (simp_all add: resume_world_def hasContent_def resume_log2_def resume_log1_def nl_def)

lemma user_record_read:
  "Unmarshal (table_lib [(user_line, user_record)]) user_line = Some user_record"
  "as_string (map_of user_record ''session_id'') = Some ''bbbbbbbb-1111-4111-8111-000000000002''"
  "as_string (map_of user_record ''from'') = Some ''user''"
  "user_line \<noteq> []"
  by (simp_all add: table_lib_def user_record_def as_string_def user_line_def)

lemma resume_last_session_id:
  "lastSessionID (table_lib [(user_line, user_record)]) resume_world resume_log2
     = Inr ''bbbbbbbb-1111-4111-8111-000000000002''"
proof -
  have sc: "ScanLines (table_lib [(user_line, user_record)]) (user_line @ nl)
              = ([user_line], False)"
    by (simp add: table_lib_def user_line_scanned)
  have v: "isValidUUID ''bbbbbbbb-1111-4111-8111-000000000002''"
    by (simp add: isValidUUID_def isHexDigit_def)
  show ?thesis
    by (simp add: lastSessionID_def resume_log2_content sc user_record_read v)
qed

lemma resume_only_user_records:
  "\<not> hasNonUserRecord (table_lib [(user_line, user_record)]) resume_world resume_log2"
  "\<not> hasEstablishedSession (table_lib [(user_line, user_record)]) resume_world resume_log2"
proof -
  have sc: "ScanLines (table_lib [(user_line, user_record)]) (user_line @ nl)
              = ([user_line], False)"
    by (simp add: table_lib_def user_line_scanned)
  have ty: "as_string (map_of user_record ''type'') = None"
    by (simp add: user_record_def as_string_def)
  show "\<not> hasNonUserRecord (table_lib [(user_line, user_record)]) resume_world resume_log2"
    by (simp add: hasNonUserRecord_def resume_log2_content sc user_record_read)
  show "\<not> hasEstablishedSession (table_lib [(user_line, user_record)]) resume_world resume_log2"
    by (simp add: hasEstablishedSession_def resume_log2_content sc user_record_read ty)
qed

text \<open>
  C2 (as stated): steps (b) and (c) are guarded by "the log has a record with origin
  other than user", so that a persona log with user-origin records only falls through
  to (c) or (d).  The code does not behave so: for the persona log that holds a single
  user-origin record (no snapshot, no undifferentiated log), the stated order yields the
  conversation identifier, step (d), while \<open>DetermineSessionID\<close> returns the session
  identifier of that user record, a different value, and assigns it to the context.
\<close>

theorem C2_user_only_log_counterexample:
  "\<not> hasNonUserRecord (table_lib [(user_line, user_record)]) resume_world resume_log2 \<and>
   spec_resolve (hasNonUserRecord (table_lib [(user_line, user_record)]) resume_world)
       (table_lib [(user_line, user_record)]) resume_world resume_ctx resume_log2 resume_log1
     = Inr (CID resume_ctx) \<and>
   DetermineSessionID (table_lib [(user_line, user_record)]) resume_world resume_ctx
     = (Inr ''bbbbbbbb-1111-4111-8111-000000000002'',
        resume_ctx\<lparr>SID := ''bbbbbbbb-1111-4111-8111-000000000002''\<rparr>) \<and>
   CID resume_ctx \<noteq> ''bbbbbbbb-1111-4111-8111-000000000002''"
proof -
  have m: "MOD resume_ctx \<noteq> []" "CID resume_ctx \<noteq> ''bbbbbbbb-1111-4111-8111-000000000002''"
    by (simp_all add: resume_ctx_def)
  show ?thesis
    using m resume_only_user_records(1)
    by (simp add: spec_resolve_def DetermineSessionID_def resume_no_snapshot resume_paths
        resume_log2_content resume_last_session_id)
qed

text \<open>
  C2 (amended): when the log paths resolve, the resolver determines the session identifier
  in this priority order: (a) a parseable snapshot with non-empty \<open>SID\<close> wins; (b) else,
  if the persona-specific log file exists with non-zero size, the identifier is extracted
  from its last line, whatever the origin of its records, and a failed extraction is the
  result (an error); (c) else, if the persona is empty and the undifferentiated log file
  exists with non-zero size, it is extracted from there in the same way; (d) else the
  result is the conversation identifier.  In particular a non-empty persona log whose
  last line decodes to a record with a valid session identifier \<open>S\<close> yields \<open>S\<close> also when
  all its records are of origin \<open>user\<close>.
\<close>

theorem C2_DetermineSessionID_order:
  assumes "Log2 L W c = Inr log2" and "Log1 L W c = Inr log1"
  shows "fst (DetermineSessionID L W c) = spec_resolve (hasContent W) L W c log2 log1 \<and>
         (snapshotSID L W c = None \<and> files W log2 = Some b \<and> b \<noteq> [] \<and>
          ScanLines L b = (scanned @ [l], False) \<and> l \<noteq> [] \<and> Unmarshal L l = Some data \<and>
          as_string (map_of data ''session_id'') = Some S \<and> isValidUUID S
            \<longrightarrow> DetermineSessionID L W c = (Inr S, c\<lparr>SID := S\<rparr>))"
proof (intro conjI impI)
  show "fst (DetermineSessionID L W c) = spec_resolve (hasContent W) L W c log2 log1"
    using assms
    by (simp add: DetermineSessionID_def spec_resolve_def split: option.splits sum.splits)
next
  assume a: "snapshotSID L W c = None \<and> files W log2 = Some b \<and> b \<noteq> [] \<and>
          ScanLines L b = (scanned @ [l], False) \<and> l \<noteq> [] \<and> Unmarshal L l = Some data \<and>
          as_string (map_of data ''session_id'') = Some S \<and> isValidUUID S"
  then have "lastSessionID L W log2 = Inr S"
    by (simp add: lastSessionID_def)
  moreover have "hasContent W log2" using a by (simp add: hasContent_def)
  ultimately show "DetermineSessionID L W c = (Inr S, c\<lparr>SID := S\<rparr>)"
    using a assms by (simp add: DetermineSessionID_def)
qed

theorem C2_DetermineSessionID_order_witness:
  "Log2 (table_lib [(user_line, user_record)]) resume_world resume_ctx = Inr resume_log2 \<and>
   Log1 (table_lib [(user_line, user_record)]) resume_world resume_ctx = Inr resume_log1 \<and>
   snapshotSID (table_lib [(user_line, user_record)]) resume_world resume_ctx = None \<and>
   files resume_world resume_log2 = Some (user_line @ nl) \<and> user_line @ nl \<noteq> [] \<and>
   ScanLines (table_lib [(user_line, user_record)]) (user_line @ nl) = ([] @ [user_line], False) \<and>
   user_line \<noteq> [] \<and>
   Unmarshal (table_lib [(user_line, user_record)]) user_line = Some user_record \<and>
   as_string (map_of user_record ''session_id'') = Some ''bbbbbbbb-1111-4111-8111-000000000002'' \<and>
   isValidUUID ''bbbbbbbb-1111-4111-8111-000000000002'' \<and>
   DetermineSessionID (table_lib [(user_line, user_record)]) resume_world resume_ctx
     = (Inr ''bbbbbbbb-1111-4111-8111-000000000002'',
        resume_ctx\<lparr>SID := ''bbbbbbbb-1111-4111-8111-000000000002''\<rparr>) \<and>
   spec_resolve (hasContent resume_world) (table_lib [(user_line, user_record)]) resume_world
       resume_ctx resume_log2 resume_log1 = Inr ''bbbbbbbb-1111-4111-8111-000000000002''"
proof -
  have sc: "ScanLines (table_lib [(user_line, user_record)]) (user_line @ nl)
              = ([] @ [user_line], False)"
    by (simp add: table_lib_def user_line_scanned)
  have v: "isValidUUID ''bbbbbbbb-1111-4111-8111-000000000002''"
    by (simp add: isValidUUID_def isHexDigit_def)
  have ne: "user_line @ nl \<noteq> []" by (simp add: nl_def)
  note t = C2_DetermineSessionID_order [OF resume_paths(1) [of "[(user_line, user_record)]"]
      resume_paths(2) [of "[(user_line, user_record)]"],
      where b = "user_line @ nl" and scanned = "[]" and l = user_line and data = user_record
        and S = "''bbbbbbbb-1111-4111-8111-000000000002''"]
  have d: "DetermineSessionID (table_lib [(user_line, user_record)]) resume_world resume_ctx
     = (Inr ''bbbbbbbb-1111-4111-8111-000000000002'',
        resume_ctx\<lparr>SID := ''bbbbbbbb-1111-4111-8111-000000000002''\<rparr>)"
    using t resume_no_snapshot resume_log2_content sc user_record_read v ne by blast
  have s: "spec_resolve (hasContent resume_world) (table_lib [(user_line, user_record)])
       resume_world resume_ctx resume_log2 resume_log1
         = Inr ''bbbbbbbb-1111-4111-8111-000000000002''"
    using t d by simp
  show ?thesis
    using d s resume_paths resume_no_snapshot resume_log2_content sc user_record_read v ne
    by simp
qed

section \<open>The output ceiling: results\<close>
















section \<open>Closing the subprocess stream: results\<close>








end
